theory Spec2Isabelle
  imports Main "HOL-Library.AList"
begin

section \<open>JavaScript values\<close>

text \<open>
  The two gmossp adapters (the per-request GET variant of \<^verbatim>\<open>modules/gmosspBidAdapter.js\<close> and
  the aggregate POST variant) work on dynamically typed data: bid requests written by the
  publisher and JSON parsed from the bid server. The values are modelled as the JSON
  values plus \<^verbatim>\<open>undefined\<close>. Numbers are the integers: the adapters copy prices through and
  do no arithmetic on them. An object is its list of own properties in insertion order,
  read by the first entry of a key. Parsed JSON is a tree, so an update of a nested object
  is an update of the value that holds it.
\<close>

datatype jsval =
    JUndefined
  | JNull
  | JBool bool
  | JNum int
  | JStr string
  | JArr "jsval list"
  | JObj "(string \<times> jsval) list"

text \<open>
  What a call can throw. \<open>Unmodelled\<close> is not a JavaScript exception: it marks the one
  coercion the model does not follow (the numeric value of a string that is not a plain
  run of decimal digits).
\<close>

datatype error = TypeError | URIError | Unmodelled

type_synonym log = "(string \<times> error) list"

text \<open>ToBoolean.\<close>

fun truthy :: "jsval \<Rightarrow> bool" where
  "truthy JUndefined = False"
| "truthy JNull = False"
| "truthy (JBool b) = b"
| "truthy (JNum n) = (n \<noteq> 0)"
| "truthy (JStr s) = (s \<noteq> [])"
| "truthy (JArr xs) = True"
| "truthy (JObj fs) = True"

text \<open>
  A property read \<^verbatim>\<open>v.k\<close>. Reading from \<^verbatim>\<open>undefined\<close> or \<^verbatim>\<open>null\<close> throws a TypeError. Arrays
  and strings have \<^verbatim>\<open>length\<close>; of the other names the adapters read, none is an inherited
  property of a value they read it from.
\<close>

fun js_get :: "jsval \<Rightarrow> string \<Rightarrow> error + jsval" where
  "js_get JUndefined k = Inl TypeError"
| "js_get JNull k = Inl TypeError"
| "js_get (JObj fs) k = Inr (case map_of fs k of None \<Rightarrow> JUndefined | Some v \<Rightarrow> v)"
| "js_get (JArr xs) k = Inr (if k = ''length'' then JNum (int (length xs)) else JUndefined)"
| "js_get (JStr s) k = Inr (if k = ''length'' then JNum (int (length s)) else JUndefined)"
| "js_get (JBool b) k = Inr JUndefined"
| "js_get (JNum n) k = Inr JUndefined"

text \<open>
  A property write \<^verbatim>\<open>v.k = x\<close> (the modules are strict code: a write to a primitive throws).
  The adapters write only to objects.
\<close>

fun js_set :: "jsval \<Rightarrow> string \<Rightarrow> jsval \<Rightarrow> error + jsval" where
  "js_set (JObj fs) k x = Inr (JObj (AList.update k x fs))"
| "js_set v k x = Inl TypeError"

text \<open>Sequencing of calls that may throw.\<close>

definition bindE :: "error + 'a \<Rightarrow> ('a \<Rightarrow> error + 'b) \<Rightarrow> error + 'b" where
  "bindE m f = (case m of Inl e \<Rightarrow> Inl e | Inr v \<Rightarrow> f v)"

text \<open>
  An object literal \<^verbatim>\<open>{k1: e1, k2: e2, ...}\<close> with distinct keys: the initialisers are
  evaluated in order and the first one that throws aborts the literal.
\<close>

fun obj_literal :: "(string \<times> (error + jsval)) list \<Rightarrow> error + (string \<times> jsval) list" where
  "obj_literal [] = Inr []"
| "obj_literal ((k, m) # rest) =
     (case m of
        Inl e \<Rightarrow> Inl e
      | Inr v \<Rightarrow> (case obj_literal rest of
                    Inl e \<Rightarrow> Inl e
                  | Inr fs \<Rightarrow> Inr ((k, v) # fs)))"

text \<open>The value of a property read that does not throw.\<close>

definition js_prop :: "jsval \<Rightarrow> string \<Rightarrow> jsval" where
  "js_prop v k = (case js_get v k of Inl e \<Rightarrow> JUndefined | Inr x \<Rightarrow> x)"

text \<open>\<^verbatim>\<open>a || d\<close>\<close>

definition js_or :: "jsval \<Rightarrow> jsval \<Rightarrow> jsval" where
  "js_or a d = (if truthy a then a else d)"

subsection \<open>ToString\<close>

definition digit_char :: "nat \<Rightarrow> char" where
  "digit_char n = ''0123456789'' ! n"

fun string_of_nat :: "nat \<Rightarrow> string" where
  "string_of_nat n = (if n < 10 then [digit_char n] else string_of_nat (n div 10) @ [digit_char (n mod 10)])"

declare string_of_nat.simps [simp del]

definition string_of_int :: "int \<Rightarrow> string" where
  "string_of_int i = (if i < 0 then CHR ''-'' # string_of_nat (nat (- i)) else string_of_nat (nat i))"

fun join_comma :: "string list \<Rightarrow> string" where
  "join_comma [] = []"
| "join_comma [s] = s"
| "join_comma (s # t # ss) = s @ '','' @ join_comma (t # ss)"

text \<open>
  ToString of a value: a number is its decimal digits, an array is its elements joined by
  commas, with \<^verbatim>\<open>undefined\<close> and \<^verbatim>\<open>null\<close> elements empty, and a plain object is
  \<^verbatim>\<open>[object Object]\<close>.
\<close>

fun js_toString :: "jsval \<Rightarrow> string" where
  "js_toString JUndefined = ''undefined''"
| "js_toString JNull = ''null''"
| "js_toString (JBool b) = (if b then ''true'' else ''false'')"
| "js_toString (JNum n) = string_of_int n"
| "js_toString (JStr s) = s"
| "js_toString (JArr xs) =
     join_comma (map (\<lambda>x. if x = JUndefined \<or> x = JNull then [] else js_toString x) xs)"
| "js_toString (JObj fs) = ''[object Object]''"

text \<open>\<^verbatim>\<open>a + s\<close> for a string \<open>s\<close>: string concatenation after ToString of \<open>a\<close>.\<close>

definition js_plus :: "jsval \<Rightarrow> string \<Rightarrow> jsval" where
  "js_plus a s = JStr (js_toString a @ s)"

text \<open>
  \<^verbatim>\<open>v > 0\<close>. \<^verbatim>\<open>undefined\<close> is NaN and \<^verbatim>\<open>null\<close> is 0, so both compare false; an object is NaN;
  a string or an array is compared through its string, followed for the empty string (0)
  and for runs of decimal digits.
\<close>

definition str_gt0 :: "string \<Rightarrow> error + bool" where
  "str_gt0 s =
     (if s = [] then Inr False
      else if list_all (\<lambda>c. c \<in> set ''0123456789'') s then Inr (list_ex (\<lambda>c. c \<noteq> CHR ''0'') s)
      else Inl Unmodelled)"

fun js_gt0 :: "jsval \<Rightarrow> error + bool" where
  "js_gt0 JUndefined = Inr False"
| "js_gt0 JNull = Inr False"
| "js_gt0 (JBool b) = Inr b"
| "js_gt0 (JNum n) = Inr (n > 0)"
| "js_gt0 (JStr s) = str_gt0 s"
| "js_gt0 (JArr xs) = str_gt0 (js_toString (JArr xs))"
| "js_gt0 (JObj fs) = Inr False"

section \<open>Helpers of \<^verbatim>\<open>src/utils.js\<close>\<close>

text \<open>
  Modelled from the spec: \<^verbatim>\<open>utils.isEmpty\<close>, which is not among the sources. The spec's
  ``if the response body is empty/absent'': a falsy value is empty, an array or a string
  is empty when its length is 0, and any other value when it has no own property.
\<close>

definition isEmpty :: "jsval \<Rightarrow> bool" where
  "isEmpty object =
     (if \<not> truthy object then True
      else case object of
             JArr xs \<Rightarrow> xs = []
           | JStr s \<Rightarrow> s = []
           | JObj fs \<Rightarrow> fs = []
           | _ \<Rightarrow> True)"

text \<open>
  Modelled from the spec: \<^verbatim>\<open>utils._each\<close>, which is not among the sources: the callback is
  run on each element in order (``for each bid row''). \<open>each_items\<close> gives the elements
  visited: those of an array, the property values of an object (in the order of the list
  that models it), the characters of a string, and none for any other value; \<^verbatim>\<open>_each\<close>
  itself does not throw.
\<close>

fun each_items :: "jsval \<Rightarrow> jsval list" where
  "each_items (JArr xs) = xs"
| "each_items (JObj fs) = map snd fs"
| "each_items (JStr s) = map (\<lambda>c. JStr [c]) s"
| "each_items v = []"

text \<open>
  \<^verbatim>\<open>xs.forEach(f)\<close>: the elements \<open>f\<close> is run on. Only an array has \<^verbatim>\<open>forEach\<close>: on
  \<^verbatim>\<open>undefined\<close> or \<^verbatim>\<open>null\<close> the read of \<^verbatim>\<open>forEach\<close> throws, on any other value the call of
  an \<^verbatim>\<open>undefined\<close> method does.
\<close>

fun forEach_items :: "jsval \<Rightarrow> error + jsval list" where
  "forEach_items (JArr xs) = Inr xs"
| "forEach_items v = Inl TypeError"

text \<open>
  Modelled from the spec: \<^verbatim>\<open>utils.getBidIdParameter(key, paramsObj)\<close>, which is not among the
  sources: the parameter when \<^verbatim>\<open>paramsObj\<close> carries a truthy one, the empty string otherwise.
\<close>

definition getBidIdParameter :: "string \<Rightarrow> jsval \<Rightarrow> jsval" where
  "getBidIdParameter key paramsObj =
     (if truthy paramsObj then js_or (js_prop paramsObj key) (JStr []) else JStr [])"

text \<open>
  Modelled from the spec: \<^verbatim>\<open>utils.deepAccess(obj, path)\<close>, which is not among the sources, with
  the dotted path given as its list of names: each name is read from the value reached so
  far, and a falsy value on the way gives \<^verbatim>\<open>undefined\<close>.
\<close>

fun deepAccess :: "jsval \<Rightarrow> string list \<Rightarrow> jsval" where
  "deepAccess obj [] = obj"
| "deepAccess obj (k # ks) =
     deepAccess (if truthy obj then js_prop obj k else JUndefined) ks"

text \<open>
  Modelled from the spec: \<^verbatim>\<open>utils.setOnAny(collection, path)\<close>, which is not among the sources.
  Glossary, set-on-any: ``pick the first non-empty value for a field across a list of
  candidate bid requests''; \<^verbatim>\<open>undefined\<close> when no request has one.
\<close>

fun setOnAny :: "jsval list \<Rightarrow> string list \<Rightarrow> jsval" where
  "setOnAny [] key = JUndefined"
| "setOnAny (x # xs) key =
     (let result = deepAccess x key in if truthy result then result else setOnAny xs key)"

text \<open>
  Modelled from the spec: \<^verbatim>\<open>utils.isStr\<close>, which is not among the sources: whether the value
  is a string.
\<close>

fun isStr :: "jsval \<Rightarrow> bool" where
  "isStr (JStr s) = True"
| "isStr v = False"

subsection \<open>Percent encoding\<close>

text \<open>
  \<^verbatim>\<open>encodeURIComponent\<close> and \<^verbatim>\<open>encodeURI\<close> on a string of bytes: a byte outside the kept set
  becomes \<^verbatim>\<open>%XX\<close>.
\<close>

definition hex_char :: "nat \<Rightarrow> char" where
  "hex_char n = ''0123456789ABCDEF'' ! n"

definition pct :: "char \<Rightarrow> string" where
  "pct c = [CHR ''%'', hex_char ((of_char c :: nat) div 16), hex_char ((of_char c :: nat) mod 16)]"

definition uri_unreserved :: "char list" where
  "uri_unreserved =
     ''ABCDEFGHIJKLMNOPQRSTUVWXYZabcdefghijklmnopqrstuvwxyz0123456789-_.!~*()'' @ [CHR 0x27]"

definition uri_reserved :: "char list" where
  "uri_reserved = '';/?:@&=+$,#''"

definition encodeURIComponent :: "string \<Rightarrow> string" where
  "encodeURIComponent s = concat (map (\<lambda>c. if c \<in> set uri_unreserved then [c] else pct c) s)"

definition encodeURI :: "string \<Rightarrow> string" where
  "encodeURI s =
     concat (map (\<lambda>c. if c \<in> set uri_unreserved \<or> c \<in> set uri_reserved then [c] else pct c) s)"

text \<open>
  Modelled from the spec: \<^verbatim>\<open>utils.tryAppendQueryString(existingUrl, key, value)\<close>, which is
  not among the sources. Section 4.1: ``A query-string field is omitted entirely if its
  value is absent''. Absence is falsiness, the test of absence the adapters themselves
  use (\<^verbatim>\<open>!!(bid.params.sid)\<close>, \<^verbatim>\<open>res.ttl || 300\<close>); a present value is appended as
  \<^verbatim>\<open>key=<encodeURIComponent(value)>&\<close>.
\<close>

definition tryAppendQueryString :: "string \<Rightarrow> string \<Rightarrow> jsval \<Rightarrow> string" where
  "tryAppendQueryString existingUrl key v =
     (if truthy v then existingUrl @ key @ ''='' @ encodeURIComponent (js_toString v) @ ''&''
      else existingUrl)"

text \<open>
  Modelled from the spec: the snippet of \<^verbatim>\<open>utils.createTrackPixelHtml\<close>, which is not among the
  sources. Section 4.1, ``tracking-pixel \<^verbatim>\<open><img>\<close> snippet'': an \<^verbatim>\<open><img>\<close> whose source is the
  URI-encoded tracker, inside a hidden \<^verbatim>\<open><div>\<close>.
\<close>

definition pixel_markup :: "jsval \<Rightarrow> string" where
  \<open>pixel_markup url =
     ''<div style="position:absolute;left:0px;top:0px;visibility:hidden;">''
     @ ''<img src="'' @ encodeURI (js_toString url) @ ''"></div>''\<close>

text \<open>
  Modelled from the spec: \<^verbatim>\<open>utils.createTrackPixelHtml(url)\<close>, which is not among the sources.
  Section 4.1: ``one tracking-pixel \<^verbatim>\<open><img>\<close> snippet per impression-tracker URL''; a falsy
  tracker gives the empty string. The adapters below take the helper as a parameter \<open>px\<close>,
  so that a helper that throws on an entry (``malformed tracker entry'') is covered as well.
\<close>

definition createTrackPixelHtml :: "jsval \<Rightarrow> error + string" where
  "createTrackPixelHtml url = (if \<not> truthy url then Inr [] else Inr (pixel_markup url))"

text \<open>
  Modelled from the spec: the constants \<^verbatim>\<open>BANNER\<close> and \<^verbatim>\<open>NATIVE\<close> of \<^verbatim>\<open>src/mediaTypes.js\<close>,
  which is not among the sources.
\<close>

definition BANNER :: jsval where
  "BANNER = JStr ''banner''"

definition NATIVE :: jsval where
  "NATIVE = JStr ''native''"

text \<open>
  Modelled from the spec: \<^verbatim>\<open>utils.logError\<close>, which is not among the sources (``caught,
  logged''). A \<^verbatim>\<open>catch\<close> block that ran adds the message and the error to the log.
\<close>

definition logError :: "error option \<Rightarrow> log" where
  "logError thrown =
     (case thrown of None \<Rightarrow> [] | Some e \<Rightarrow> [(''Error appending tracking pixel'', e)])"

section \<open>isBidRequestValid\<close>

text \<open>\<^verbatim>\<open>return !!(bid.params.sid);\<close> in both variants.\<close>

definition isBidRequestValid :: "jsval \<Rightarrow> error + bool" where
  "isBidRequestValid bid =
     bindE (js_get bid ''params'') (\<lambda>params.
     bindE (js_get params ''sid'') (\<lambda>sid.
     Inr (truthy sid)))"

section \<open>The per-request (GET) variant: \<^verbatim>\<open>modules/gmosspBidAdapter.js\<close>\<close>

subsection \<open>interpretResponse\<close>

text \<open>
  The callback of \<^verbatim>\<open>res.imps.forEach\<close> in \<^verbatim>\<open>getBannerAd\<close>: \<^verbatim>\<open>res.ad += tracker\<close> writes to the
  response body itself. The loop returns the body as it stands when it ends, and the
  error that ended it, if one did.
\<close>

fun forEach_imps :: "(jsval \<Rightarrow> error + string) \<Rightarrow> jsval \<Rightarrow> jsval list \<Rightarrow> jsval \<times> error option" where
  "forEach_imps px res [] = (res, None)"
| "forEach_imps px res (impTracker # rest) =
     (case px impTracker of
        Inl e \<Rightarrow> (res, Some e)
      | Inr tracker \<Rightarrow>
          (case bindE (js_get res ''ad'') (\<lambda>ad. js_set res ''ad'' (js_plus ad tracker)) of
             Inl e \<Rightarrow> (res, Some e)
           | Inr res' \<Rightarrow> forEach_imps px res' rest))"

text \<open>
  \<^verbatim>\<open>getBannerAd(res)\<close>: the value returned (or the error of the final \<^verbatim>\<open>res.ad\<close>), what the
  \<^verbatim>\<open>catch\<close> logged, and the response body after the call.
\<close>

definition getBannerAd :: "(jsval \<Rightarrow> error + string) \<Rightarrow> jsval \<Rightarrow> (error + jsval) \<times> log \<times> jsval" where
  "getBannerAd px res =
     (let (res', thrown) =
            (case bindE (js_get res ''imps'') forEach_items of
               Inl e \<Rightarrow> (res, Some e)
             | Inr imps \<Rightarrow> forEach_imps px res imps)
      in (js_get res' ''ad'', logError thrown, res'))"

text \<open>The \<^verbatim>\<open>img\<close> object of the icon and main-image assets.\<close>

definition asset_img :: "jsval \<Rightarrow> error + jsval" where
  "asset_img asset =
     bindE (obj_literal
       [(''url'', bindE (js_get asset ''img'') (\<lambda>img. js_get img ''url'')),
        (''width'', bindE (js_get asset ''img'') (\<lambda>img. js_get img ''w'')),
        (''height'', bindE (js_get asset ''img'') (\<lambda>img. js_get img ''h''))])
       (\<lambda>fs. Inr (JObj fs))"

text \<open>The callback of \<^verbatim>\<open>resNative.assets.forEach\<close>: the \<^verbatim>\<open>switch (asset.id)\<close>.\<close>

definition native_asset :: "(string \<times> jsval) list \<Rightarrow> jsval \<Rightarrow> error + (string \<times> jsval) list" where
  "native_asset native asset =
     bindE (js_get asset ''id'') (\<lambda>i.
       if i = JNum 0 then
         bindE (bindE (js_get asset ''title'') (\<lambda>t. js_get t ''text''))
           (\<lambda>v. Inr (AList.update ''title'' v native))
       else if i = JNum 1 then
         bindE (bindE (js_get asset ''data'') (\<lambda>d. js_get d ''value''))
           (\<lambda>v. Inr (AList.update ''body'' v native))
       else if i = JNum 2 then
         bindE (bindE (js_get asset ''data'') (\<lambda>d. js_get d ''value''))
           (\<lambda>v. Inr (AList.update ''sponsoredBy'' v native))
       else if i = JNum 3 then
         bindE (asset_img asset) (\<lambda>v. Inr (AList.update ''icon'' v native))
       else if i = JNum 4 then
         bindE (asset_img asset) (\<lambda>v. Inr (AList.update ''image'' v native))
       else Inr native)"

fun forEach_assets :: "(string \<times> jsval) list \<Rightarrow> jsval list \<Rightarrow> error + (string \<times> jsval) list" where
  "forEach_assets native [] = Inr native"
| "forEach_assets native (asset # rest) =
     bindE (native_asset native asset) (\<lambda>native'. forEach_assets native' rest)"

definition getNativeAd :: "jsval \<Rightarrow> error + jsval" where
  "getNativeAd resNative =
     bindE (js_get resNative ''assets'') (\<lambda>assets.
     bindE (js_get assets ''length'') (\<lambda>len.
     if \<not> truthy len then Inr (JObj [])
     else
       bindE (forEach_items assets) (\<lambda>items.
       bindE (forEach_assets [] items) (\<lambda>native.
       bindE (bindE (js_get resNative ''link'') (\<lambda>link. js_get link ''url'')) (\<lambda>clickUrl.
       bindE (js_get resNative ''imptrackers'') (\<lambda>imptrackers.
       bindE (js_get resNative ''privacy'') (\<lambda>privacy.
       bindE (js_get resNative ''privacyIcon'') (\<lambda>privacyIcon.
       Inr (JObj
         (AList.update ''privacyIcon'' (js_or privacyIcon (JStr []))
         (AList.update ''privacyLink'' (js_or privacy (JStr []))
         (AList.update ''impressionTrackers'' (js_or imptrackers (JArr []))
         (AList.update ''clickUrl'' clickUrl native)))))))))))))"

text \<open>The test \<^verbatim>\<open>res.native && res.native.length > 0\<close>.\<close>

definition is_native :: "jsval \<Rightarrow> error + bool" where
  "is_native res =
     bindE (js_get res ''native'') (\<lambda>native.
       if truthy native then bindE (js_get native ''length'') js_gt0 else Inr False)"

text \<open>The object literal \<^verbatim>\<open>const bid = {requestId: res.bid, ...}\<close>.\<close>

definition bid_literal_get :: "jsval \<Rightarrow> error + (string \<times> jsval) list" where
  "bid_literal_get res =
     obj_literal
       [(''requestId'', js_get res ''bid''),
        (''cpm'', js_get res ''price''),
        (''currency'', js_get res ''cur''),
        (''width'', js_get res ''w''),
        (''height'', js_get res ''h''),
        (''creativeId'', js_get res ''creativeId''),
        (''netRevenue'', Inr (JBool True)),
        (''ttl'', bindE (js_get res ''ttl'') (\<lambda>ttl. Inr (js_or ttl (JNum 300))))]"

text \<open>
  \<^verbatim>\<open>interpretResponse(bidderResponse, requests)\<close>: the bids returned or the error thrown, the
  log, and \<^verbatim>\<open>bidderResponse\<close> after the call (the banner branch writes to its body).
\<close>

definition interpretResponse_get ::
  "(jsval \<Rightarrow> error + string) \<Rightarrow> jsval \<Rightarrow> (error + jsval list) \<times> log \<times> jsval" where
  "interpretResponse_get px bidderResponse =
     (case js_get bidderResponse ''body'' of
        Inl e \<Rightarrow> (Inl e, [], bidderResponse)
      | Inr res \<Rightarrow>
          if isEmpty res then (Inr [], [], bidderResponse)
          else
            (case bid_literal_get res of
               Inl e \<Rightarrow> (Inl e, [], bidderResponse)
             | Inr bid \<Rightarrow>
                 (case is_native res of
                    Inl e \<Rightarrow> (Inl e, [], bidderResponse)
                  | Inr True \<Rightarrow>
                      (bindE (bindE (js_get res ''native'') getNativeAd) (\<lambda>native.
                         Inr [JObj (AList.update ''native'' native
                                     (AList.update ''mediaType'' NATIVE bid))]),
                       [], bidderResponse)
                  | Inr False \<Rightarrow>
                      (let (ad, lg, res') = getBannerAd px res
                       in (bindE ad (\<lambda>ad.
                             Inr [JObj (AList.update ''ad'' ad
                                         (AList.update ''mediaType'' BANNER bid))]),
                           lg,
                           (case js_set bidderResponse ''body'' res' of
                              Inl e \<Rightarrow> bidderResponse
                            | Inr r \<Rightarrow> r))))))"

subsection \<open>getUserSyncs\<close>

definition sync_pixel :: "jsval \<Rightarrow> jsval" where
  "sync_pixel sync = JObj [(''type'', JStr ''image''), (''url'', sync)]"

text \<open>
  The callback of \<^verbatim>\<open>serverResponses.forEach\<close>: the pixels one response adds. The guard
  \<^verbatim>\<open>syncOptions.pixelEnabled && res.body && res.body.syncs.length\<close> is evaluated left to
  right and stops at the first falsy operand.
\<close>

definition syncs_of_get :: "jsval \<Rightarrow> jsval \<Rightarrow> error + jsval list" where
  "syncs_of_get syncOptions res =
     bindE (js_get syncOptions ''pixelEnabled'') (\<lambda>pixelEnabled.
     if \<not> truthy pixelEnabled then Inr []
     else
       bindE (js_get res ''body'') (\<lambda>body.
       if \<not> truthy body then Inr []
       else
         bindE (js_get body ''syncs'') (\<lambda>syncs.
         bindE (js_get syncs ''length'') (\<lambda>len.
         if \<not> truthy len then Inr []
         else bindE (forEach_items syncs) (\<lambda>items. Inr (map sync_pixel items))))))"

fun forEach_responses :: "(jsval \<Rightarrow> error + jsval list) \<Rightarrow> jsval list \<Rightarrow> error + jsval list" where
  "forEach_responses f [] = Inr []"
| "forEach_responses f (res # rest) =
     bindE (f res) (\<lambda>syncs. bindE (forEach_responses f rest) (\<lambda>syncs'. Inr (syncs @ syncs')))"

definition getUserSyncs_get :: "jsval \<Rightarrow> jsval list \<Rightarrow> error + jsval list" where
  "getUserSyncs_get syncOptions serverResponses =
     (if length serverResponses = 0 then Inr []
      else forEach_responses (syncs_of_get syncOptions) serverResponses)"

subsection \<open>buildRequests\<close>

text \<open>
  What the adapters read from the page and from the framework's configuration: the
  do-not-track flag (\<^verbatim>\<open>getDNT()\<close>), \<^verbatim>\<open>config.getConfig('currency.adServerCurrency')\<close>,
  \<^verbatim>\<open>getCurrencyFromBidderRequest\<close>, the \<^verbatim>\<open>meta\<close> elements of the document with their
  \<^verbatim>\<open>property\<close> attribute and \<^verbatim>\<open>content\<close>, \<^verbatim>\<open>window.document.referrer\<close>, and \<^verbatim>\<open>JSON.stringify\<close>.
\<close>

record meta =
  property :: "string option"
  content :: string

record platform =
  getDNT :: bool
  adServerCurrency :: jsval
  getCurrencyFromBidderRequest :: "jsval \<Rightarrow> jsval"
  metaElements :: "meta list"
  documentReferrer :: string
  JSON_stringify :: "jsval \<Rightarrow> string"

definition ENDPOINT_get :: string where
  "ENDPOINT_get = ''https://mabuchi-ad.devel.sp.gmossp-sp.jp/hb/prebid/query.ad''"

definition getCurrencyType_get :: "platform \<Rightarrow> jsval" where
  "getCurrencyType_get P =
     (if truthy (adServerCurrency P) then adServerCurrency P else JStr ''JPY'')"

definition setUserId :: "jsval list \<Rightarrow> string \<Rightarrow> jsval \<Rightarrow> jsval list" where
  "setUserId eids source v =
     (if isStr v
      then eids @ [JObj [(''source'', JStr source), (''uids'', JArr [JObj [(''id'', v)]])]]
      else eids)"

text \<open>The fields of one request, in the order they are appended to the query string.\<close>

definition query_fields ::
  "jsval \<Rightarrow> jsval \<Rightarrow> jsval \<Rightarrow> jsval \<Rightarrow> jsval \<Rightarrow> error + (string \<times> jsval) list" where
  "query_fields ref_url cur dnt bidderRequest request =
     bindE (js_get request ''transactionId'') (\<lambda>tid.
     bindE (js_get request ''bidId'') (\<lambda>bid.
     bindE (js_get request ''params'') (\<lambda>params.
     bindE (if truthy bidderRequest
            then bindE (js_get bidderRequest ''userId'') (\<lambda>userId. Inr (truthy userId))
            else Inr False) (\<lambda>hasUserId.
     Inr [(''tid'', tid),
          (''bid'', bid),
          (''ver'', JStr ''$prebid.version$''),
          (''sid'', getBidIdParameter ''sid'' params),
          (''url'', ref_url),
          (''cur'', cur),
          (''dnt'', dnt),
          (''native'', getBidIdParameter ''native'' params),
          (''usr'', JArr (if hasUserId
                          then setUserId [] ''liveramp.com''
                                 (deepAccess bidderRequest [''userId'', ''idl_env''])
                          else []))]))))"

text \<open>The chain of \<^verbatim>\<open>queryString = utils.tryAppendQueryString(queryString, key, value)\<close>.\<close>

fun appendAll :: "string \<Rightarrow> (string \<times> jsval) list \<Rightarrow> string" where
  "appendAll queryString [] = queryString"
| "appendAll queryString ((key, v) # rest) =
     appendAll (tryAppendQueryString queryString key v) rest"

definition request_get :: "jsval \<Rightarrow> jsval \<Rightarrow> jsval \<Rightarrow> jsval \<Rightarrow> jsval \<Rightarrow> error + jsval" where
  "request_get ref_url cur dnt bidderRequest request =
     bindE (query_fields ref_url cur dnt bidderRequest request) (\<lambda>fields.
     Inr (JObj [(''method'', JStr ''GET''),
                (''url'', JStr ENDPOINT_get),
                (''data'', JStr (appendAll [] fields))]))"

fun forEach_requests :: "(jsval \<Rightarrow> error + jsval) \<Rightarrow> jsval list \<Rightarrow> error + jsval list" where
  "forEach_requests f [] = Inr []"
| "forEach_requests f (request # rest) =
     bindE (f request) (\<lambda>r. bindE (forEach_requests f rest) (\<lambda>rs. Inr (r # rs)))"

definition buildRequests_get :: "platform \<Rightarrow> jsval list \<Rightarrow> jsval \<Rightarrow> error + jsval list" where
  "buildRequests_get P validBidRequests bidderRequest =
     bindE (bindE (js_get bidderRequest ''refererInfo'') (\<lambda>ri. js_get ri ''referer'')) (\<lambda>ref_url.
     forEach_requests
       (request_get ref_url (getCurrencyType_get P) (JStr (if getDNT P then ''1'' else ''0''))
          bidderRequest)
       validBidRequests)"

section \<open>The aggregate (POST) variant\<close>

subsection \<open>buildRequests\<close>

definition ENDPOINT_post :: string where
  "ENDPOINT_post = ''https://sp.gmossp-sp.jp/hb/prebid/query.ad''"

definition getCurrencyType_post :: "platform \<Rightarrow> jsval \<Rightarrow> jsval" where
  "getCurrencyType_post P bidderRequest =
     js_or (getCurrencyFromBidderRequest P bidderRequest) (JStr ''JPY'')"

text \<open>
  The loop of \<^verbatim>\<open>getUrlInfo\<close> over the \<^verbatim>\<open>meta\<close> elements, which runs while
  \<^verbatim>\<open>canonicalLink\<close> is falsy.
\<close>

fun scan_meta :: "meta list \<Rightarrow> jsval \<Rightarrow> jsval" where
  "scan_meta [] canonicalLink = canonicalLink"
| "scan_meta (m # ms) canonicalLink =
     (if truthy canonicalLink then canonicalLink
      else scan_meta ms (if property m = Some ''og:url'' then JStr (content m) else canonicalLink))"

definition getUrlInfo :: "platform \<Rightarrow> jsval \<Rightarrow> error + jsval" where
  "getUrlInfo P refererInfo =
     bindE (js_get refererInfo ''canonicalUrl'') (\<lambda>canonicalUrl.
     bindE (obj_literal
              [(''canonical_link'',
                  Inr (if \<not> truthy canonicalUrl then scan_meta (metaElements P) canonicalUrl
                       else canonicalUrl)),
               (''url'', js_get refererInfo ''topmostLocation''),
               (''ref'', bindE (js_get refererInfo ''ref'')
                           (\<lambda>r. Inr (js_or r (JStr (documentReferrer P)))))])
       (\<lambda>fs. Inr (JObj fs)))"

text \<open>The callback of \<^verbatim>\<open>_each(validBidRequests, ...)\<close>: one entry of \<^verbatim>\<open>requests\<close>.\<close>

definition request_entry :: "jsval \<Rightarrow> error + jsval" where
  "request_entry request =
     bindE (obj_literal
              [(''bid'', js_get request ''bidId''),
               (''sid'', bindE (js_get request ''params'')
                           (\<lambda>params. Inr (getBidIdParameter ''sid'' params)))])
       (\<lambda>fs. Inr (JObj fs))"

text \<open>The object handed to \<^verbatim>\<open>JSON.stringify\<close>.\<close>

definition payload_post :: "platform \<Rightarrow> jsval list \<Rightarrow> jsval \<Rightarrow> error + jsval" where
  "payload_post P validBidRequests bidderRequest =
     bindE (forEach_requests request_entry validBidRequests) (\<lambda>requests.
     bindE (obj_literal
              [(''ver'', Inr (JStr ''$prebid.version$'')),
               (''eids'', Inr (JObj
                  [(''im_uid'', setOnAny validBidRequests [''userId'', ''imuid'']),
                   (''shared_id'', setOnAny validBidRequests [''userId'', ''pubcid''])])),
               (''url_info'', bindE (js_get bidderRequest ''refererInfo'') (getUrlInfo P)),
               (''cur'', Inr (getCurrencyType_post P bidderRequest)),
               (''dnt'', Inr (JNum (if getDNT P then 1 else 0))),
               (''device_sua'', Inr (setOnAny validBidRequests [''ortb2'', ''device'', ''sua''])),
               (''user_data'', Inr (setOnAny validBidRequests [''ortb2'', ''user'', ''data''])),
               (''requests'', Inr (JArr requests))])
       (\<lambda>fs. Inr (JObj fs)))"

definition buildRequests_post :: "platform \<Rightarrow> jsval list \<Rightarrow> jsval \<Rightarrow> error + jsval list" where
  "buildRequests_post P validBidRequests bidderRequest =
     bindE (payload_post P validBidRequests bidderRequest) (\<lambda>payload.
     Inr [JObj [(''method'', JStr ''POST''),
                (''url'', JStr ENDPOINT_post),
                (''data'', JStr (JSON_stringify P payload))]])"

subsection \<open>interpretResponse\<close>

text \<open>
  The inner \<^verbatim>\<open>_each(row.imps, ...)\<close>: \<^verbatim>\<open>ad += createTrackPixelHtml(impTracker)\<close> on the local
  \<^verbatim>\<open>ad\<close>. The loop returns \<^verbatim>\<open>ad\<close> as it stands when it ends, and the error that ended it.
\<close>

fun appendPixels :: "(jsval \<Rightarrow> error + string) \<Rightarrow> jsval \<Rightarrow> jsval list \<Rightarrow> jsval \<times> error option" where
  "appendPixels px ad [] = (ad, None)"
| "appendPixels px ad (impTracker # rest) =
     (case px impTracker of
        Inl e \<Rightarrow> (ad, Some e)
      | Inr tracker \<Rightarrow> appendPixels px (js_plus ad tracker) rest)"

text \<open>The object literal pushed to \<^verbatim>\<open>bids\<close>.\<close>

definition bid_literal_post :: "jsval \<Rightarrow> jsval \<Rightarrow> jsval \<Rightarrow> error + (string \<times> jsval) list" where
  "bid_literal_post res row ad =
     obj_literal
       [(''requestId'', js_get row ''bid''),
        (''cpm'', js_get row ''price''),
        (''currency'', js_get res ''cur''),
        (''width'', js_get row ''w''),
        (''height'', js_get row ''h''),
        (''ad'', Inr ad),
        (''creativeId'', js_get row ''creativeId''),
        (''netRevenue'', Inr (JBool True)),
        (''ttl'', bindE (js_get res ''ttl'') (\<lambda>ttl. Inr (js_or ttl (JNum 300)))),
        (''adomains'', js_get row ''adomains'')]"

text \<open>The callback of \<^verbatim>\<open>_each(res.bids, ...)\<close>: the bid of one row and what was logged.\<close>

definition row_bid :: "(jsval \<Rightarrow> error + string) \<Rightarrow> jsval \<Rightarrow> jsval \<Rightarrow> (error + jsval) \<times> log" where
  "row_bid px res row =
     (case js_get row ''ad'' of
        Inl e \<Rightarrow> (Inl e, [])
      | Inr ad0 \<Rightarrow>
          (let (ad, thrown) =
                 (case js_get row ''imps'' of
                    Inl e \<Rightarrow> (ad0, Some e)
                  | Inr imps \<Rightarrow> appendPixels px ad0 (each_items imps))
           in (bindE (bid_literal_post res row ad) (\<lambda>fs. Inr (JObj fs)), logError thrown)))"

fun each_rows :: "(jsval \<Rightarrow> error + string) \<Rightarrow> jsval \<Rightarrow> jsval list \<Rightarrow> (error + jsval list) \<times> log" where
  "each_rows px res [] = (Inr [], [])"
| "each_rows px res (row # rows) =
     (case row_bid px res row of
        (Inl e, lg) \<Rightarrow> (Inl e, lg)
      | (Inr b, lg) \<Rightarrow>
          (case each_rows px res rows of
             (Inl e, lg') \<Rightarrow> (Inl e, lg @ lg')
           | (Inr bs, lg') \<Rightarrow> (Inr (b # bs), lg @ lg')))"

definition interpretResponse_post :: "(jsval \<Rightarrow> error + string) \<Rightarrow> jsval \<Rightarrow> (error + jsval list) \<times> log" where
  "interpretResponse_post px serverResponses =
     (case js_get serverResponses ''body'' of
        Inl e \<Rightarrow> (Inl e, [])
      | Inr res \<Rightarrow>
          if isEmpty res then (Inr [], [])
          else (case js_get res ''bids'' of
                  Inl e \<Rightarrow> (Inl e, [])
                | Inr bids \<Rightarrow> each_rows px res (each_items bids)))"

subsection \<open>getUserSyncs\<close>

definition syncs_of_post :: "jsval \<Rightarrow> jsval \<Rightarrow> error + jsval list" where
  "syncs_of_post syncOptions res =
     bindE (js_get syncOptions ''pixelEnabled'') (\<lambda>pixelEnabled.
     if \<not> truthy pixelEnabled then Inr []
     else
       bindE (js_get res ''body'') (\<lambda>body.
       if \<not> truthy body then Inr []
       else
         bindE (js_get body ''syncs'') (\<lambda>syncs.
         bindE (js_get syncs ''length'') (\<lambda>len.
         if \<not> truthy len then Inr []
         else Inr (map sync_pixel (each_items syncs))))))"

definition getUserSyncs_post :: "jsval \<Rightarrow> jsval list \<Rightarrow> error + jsval list" where
  "getUserSyncs_post syncOptions serverResponses =
     (if length serverResponses = 0 then Inr []
      else forEach_responses (syncs_of_post syncOptions) serverResponses)"

section \<open>Example inputs\<close>

text \<open>The banner row of the spec's example: markup \<^verbatim>\<open><div>ad</div>\<close> and one tracker.\<close>

definition example_row :: "(string \<times> jsval) list" where
  "example_row = [(''bid'', JStr ''b1''), (''price'', JNum 20),
     (''ad'', JStr ''<div>ad</div>''), (''imps'', JArr [JStr ''http://t1''])]"

text \<open>A pixel helper that throws on the tracker \<^verbatim>\<open>bad\<close>, and a row whose second tracker is it.\<close>

definition failing_px :: "jsval \<Rightarrow> error + string" where
  "failing_px t =
     (if t = JStr ''bad'' then Inl URIError else Inr (''<img '' @ js_toString t @ ''>''))"

definition failing_row :: "(string \<times> jsval) list" where
  "failing_row = [(''bid'', JStr ''b1''), (''ad'', JStr ''<div>ad</div>''),
     (''imps'', JArr [JStr ''t1'', JStr ''bad'', JStr ''t3''])]"

text \<open>
  The requests of a small auction, and a platform with nothing configured (ToString stands
  in for \<^verbatim>\<open>JSON.stringify\<close>).
\<close>

definition example_platform :: platform where
  "example_platform =
     \<lparr>getDNT = False, adServerCurrency = JUndefined,
      getCurrencyFromBidderRequest = (\<lambda>bidderRequest. JUndefined), metaElements = [],
      documentReferrer = [], JSON_stringify = js_toString\<rparr>"

definition example_bids :: "jsval list" where
  "example_bids =
     [JObj [(''bidId'', JStr ''b1''), (''transactionId'', JStr ''t1''),
            (''params'', JObj [(''sid'', JStr ''123'')])],
      JObj [(''bidId'', JStr ''b2''), (''params'', JObj [(''sid'', JNum 456)])]]"

definition example_bidderRequest :: jsval where
  "example_bidderRequest = JObj [(''refererInfo'', JObj [(''referer'', JStr ''http://example.com'')])]"

text \<open>The bid the GET variant builds from \<open>example_row\<close>, given its \<^verbatim>\<open>ad\<close>.\<close>

definition example_bid :: "jsval \<Rightarrow> (string \<times> jsval) list" where
  "example_bid ad =
     [(''requestId'', JStr ''b1''), (''cpm'', JNum 20), (''currency'', JUndefined),
      (''width'', JUndefined), (''height'', JUndefined), (''creativeId'', JUndefined),
      (''netRevenue'', JBool True), (''ttl'', JNum 300), (''mediaType'', BANNER), (''ad'', ad)]"

text \<open>
  The spec's native example: a response whose \<^verbatim>\<open>native\<close> object carries the asset list
  \<^verbatim>\<open>[{id: 0, title: {text: "T"}}]\<close> and a click-through link.
\<close>

definition native_response :: jsval where
  "native_response =
     JObj [(''body'', JObj [(''bid'', JStr ''b1''), (''price'', JNum 20),
       (''native'', JObj
          [(''assets'', JArr [JObj [(''id'', JNum 0), (''title'', JObj [(''text'', JStr ''T'')])]]),
           (''link'', JObj [(''url'', JStr ''http://c'')])])])]"




text \<open>The entry of \<^verbatim>\<open>requests\<close> that belongs to a bid request: \<^verbatim>\<open>{bid: bidId, sid: params.sid}\<close>.\<close>

definition request_of :: "jsval \<Rightarrow> jsval" where
  "request_of b = JObj [(''bid'', js_prop b ''bidId''), (''sid'', js_prop (js_prop b ''params'') ''sid'')]"

section \<open>Basic facts\<close>

lemma bindE_Inl [simp]: "bindE (Inl e) f = Inl e"
  by (simp add: bindE_def)

lemma bindE_Inr [simp]: "bindE (Inr v) f = f v"
  by (simp add: bindE_def)


lemma js_get_str_object:
  assumes "js_get v k = Inr (JStr s)"
  shows "\<exists>fs. v = JObj fs \<and> map_of fs k = Some (JStr s)"
  using assms by (cases v) (auto split: if_splits option.splits)

lemma js_get_arr_object:
  assumes "js_get v k = Inr (JArr xs)"
  shows "\<exists>fs. v = JObj fs \<and> map_of fs k = Some (JArr xs)"
  using assms by (cases v) (auto split: if_splits option.splits)

lemma prop_exists:
  assumes "v \<noteq> JUndefined" and "v \<noteq> JNull"
  shows "\<exists>x. js_get v k = Inr x"
  using assms by (cases v) auto


lemma js_get_prop:
  assumes "v \<noteq> JUndefined" and "v \<noteq> JNull"
  shows "js_get v k = Inr (js_prop v k)"
  using assms by (cases v) (auto simp: js_prop_def)

lemma truthy_defined: "truthy v \<Longrightarrow> v \<noteq> JUndefined \<and> v \<noteq> JNull"
  by auto

section \<open>Empty responses\<close>

text \<open>
  C1. A wire response whose body is absent (\<^verbatim>\<open>undefined\<close>), \<^verbatim>\<open>null\<close>, the empty string, the
  empty array or the empty object gives the empty list of bids in both variants: nothing
  is thrown, nothing is logged, and the GET variant leaves the response as it was.
\<close>

theorem interpretResponse_empty_body:
  assumes "js_get r ''body'' = Inr b"
    and "b \<in> {JUndefined, JNull, JStr [], JArr [], JObj []}"
  shows "interpretResponse_get px r = (Inr [], [], r)
         \<and> interpretResponse_post px r = (Inr [], [])"
proof -
  from assms(2) have "isEmpty b"
    by (auto simp: isEmpty_def)
  with assms(1) show ?thesis
    by (simp add: interpretResponse_get_def interpretResponse_post_def)
qed

theorem interpretResponse_empty_body_witness:
  "interpretResponse_get createTrackPixelHtml (JObj [(''headers'', JObj [])])
     = (Inr [], [], JObj [(''headers'', JObj [])])
   \<and> interpretResponse_post createTrackPixelHtml (JObj [(''headers'', JObj [])]) = (Inr [], [])
   \<and> interpretResponse_get createTrackPixelHtml (JObj [(''body'', JStr [])])
     = (Inr [], [], JObj [(''body'', JStr [])])
   \<and> interpretResponse_post createTrackPixelHtml (JObj [(''body'', JObj [])]) = (Inr [], [])"
  using interpretResponse_empty_body
      [of "JObj [(''headers'', JObj [])]" JUndefined createTrackPixelHtml]
    interpretResponse_empty_body
      [of "JObj [(''body'', JStr [])]" "JStr []" createTrackPixelHtml]
    interpretResponse_empty_body
      [of "JObj [(''body'', JObj [])]" "JObj []" createTrackPixelHtml]
  by simp

section \<open>Validation\<close>

text \<open>
  C2. For a bid whose \<^verbatim>\<open>params\<close> is an object, \<^verbatim>\<open>isBidRequestValid\<close> returns true exactly when
  the object has a \<^verbatim>\<open>sid\<close> and that \<^verbatim>\<open>sid\<close> is truthy. The result is a function of \<^verbatim>\<open>sid\<close>
  alone, and the call returns nothing but the boolean.
\<close>

theorem isBidRequestValid_iff_sid:
  assumes "js_get bid ''params'' = Inr (JObj params)"
  shows "isBidRequestValid bid = Inr (\<exists>sid. map_of params ''sid'' = Some sid \<and> truthy sid)"
  using assms by (auto simp: isBidRequestValid_def split: option.splits)

theorem isBidRequestValid_iff_sid_witness:
  "isBidRequestValid (JObj [(''bidId'', JStr ''b1''),
       (''params'', JObj [(''native'', JBool True), (''sid'', JStr ''123456'')])]) = Inr True
   \<and> isBidRequestValid (JObj [(''bidId'', JStr ''b1''),
       (''params'', JObj [(''native'', JBool True)])]) = Inr False
   \<and> isBidRequestValid (JObj [(''params'', JObj [(''sid'', JStr [])])]) = Inr False"
  using isBidRequestValid_iff_sid [of "JObj [(''bidId'', JStr ''b1''),
       (''params'', JObj [(''native'', JBool True), (''sid'', JStr ''123456'')])]"
       "[(''native'', JBool True), (''sid'', JStr ''123456'')]"]
    isBidRequestValid_iff_sid [of "JObj [(''bidId'', JStr ''b1''),
       (''params'', JObj [(''native'', JBool True)])]" "[(''native'', JBool True)]"]
    isBidRequestValid_iff_sid [of "JObj [(''params'', JObj [(''sid'', JStr [])])]"
       "[(''sid'', JStr [])]"]
  by simp

section \<open>Ad markup and tracking pixels\<close>

text \<open>
  Both loops append the snippets of a prefix of trackers that the helper accepts, in
  order, and then go on with the rest of the list.
\<close>

lemma forEach_imps_prefix:
  assumes "map_of fs ''ad'' = Some (JStr a)" and "\<forall>t \<in> set pre. px t = Inr (f t)"
  shows "forEach_imps px (JObj fs) (pre @ rest)
         = forEach_imps px (JObj (AList.update ''ad'' (JStr (a @ concat (map f pre))) fs)) rest"
  using assms
proof (induction pre arbitrary: a fs)
  case Nil
  then show ?case by (simp add: AList.update_triv)
next
  case (Cons t pre)
  have step: "map_of (AList.update ''ad'' (JStr (a @ f t)) fs) ''ad'' = Some (JStr (a @ f t))"
    by (simp add: AList.update_conv')
  from Cons.prems have "\<forall>t \<in> set pre. px t = Inr (f t)" by simp
  from Cons.IH [OF step this] Cons.prems show ?case
    by (simp add: js_plus_def)
qed

lemma appendPixels_prefix:
  assumes "\<forall>t \<in> set pre. px t = Inr (f t)"
  shows "appendPixels px (JStr a) (pre @ rest)
         = appendPixels px (JStr (a @ concat (map f pre))) rest"
  using assms by (induction pre arbitrary: a) (simp_all add: js_plus_def)

lemma bid_literal_get_keys:
  assumes "res \<noteq> JUndefined" and "res \<noteq> JNull"
  shows "\<exists>bid. bid_literal_get res = Inr bid
           \<and> map fst bid = [''requestId'', ''cpm'', ''currency'', ''width'', ''height'',
                             ''creativeId'', ''netRevenue'', ''ttl'']"
proof -
  obtain v1 v2 v3 v4 v5 v6 v7 where
    "js_get res ''bid'' = Inr v1" "js_get res ''price'' = Inr v2" "js_get res ''cur'' = Inr v3"
    "js_get res ''w'' = Inr v4" "js_get res ''h'' = Inr v5" "js_get res ''creativeId'' = Inr v6"
    "js_get res ''ttl'' = Inr v7"
    using prop_exists [OF assms] by metis
  then show ?thesis
    by (simp add: bid_literal_get_def)
qed

text \<open>
  The banner branch of the GET variant, for a body that carries markup and a tracker list,
  in terms of what the loop leaves in the body.
\<close>

lemma interpretResponse_get_banner:
  assumes body: "js_get r ''body'' = Inr (JObj fs)"
    and ad: "map_of fs ''ad'' = Some (JStr a)"
    and imps: "map_of fs ''imps'' = Some (JArr ts)"
    and banner: "is_native (JObj fs) = Inr False"
    and loop: "forEach_imps px (JObj fs) ts = (JObj fs', thrown)"
    and ad': "map_of fs' ''ad'' = Some ad'"
  shows "\<exists>bid. fst (interpretResponse_get px r) = Inr [JObj bid]
           \<and> map_of bid ''ad'' = Some ad'
           \<and> map_of bid ''mediaType'' = Some BANNER
           \<and> fst (snd (interpretResponse_get px r)) = logError thrown"
proof -
  from ad have ne: "\<not> isEmpty (JObj fs)"
    by (auto simp: isEmpty_def)
  obtain bid where bid: "bid_literal_get (JObj fs) = Inr bid"
    using bid_literal_get_keys [of "JObj fs"] by auto
  have gb: "getBannerAd px (JObj fs) = (Inr ad', logError thrown, JObj fs')"
    using imps loop ad' by (simp add: getBannerAd_def)
  show ?thesis
    unfolding interpretResponse_get_def
    using body ne banner gb bid
    by (simp add: AList.update_conv')
qed

lemma bid_literal_post_ad:
  assumes "res \<noteq> JUndefined" "res \<noteq> JNull" "row \<noteq> JUndefined" "row \<noteq> JNull"
  shows "\<exists>bid. bid_literal_post res row ad = Inr bid \<and> map_of bid ''ad'' = Some ad"
proof -
  obtain v1 v2 v3 v4 v5 v6 v7 v8 where
    "js_get row ''bid'' = Inr v1" "js_get row ''price'' = Inr v2" "js_get res ''cur'' = Inr v3"
    "js_get row ''w'' = Inr v4" "js_get row ''h'' = Inr v5" "js_get row ''creativeId'' = Inr v6"
    "js_get res ''ttl'' = Inr v7" "js_get row ''adomains'' = Inr v8"
    using prop_exists [OF assms(1,2)] prop_exists [OF assms(3,4)] by metis
  then show ?thesis
    by (simp add: bid_literal_post_def)
qed

lemma row_bid_defined:
  assumes "res \<noteq> JUndefined" "res \<noteq> JNull" "row \<noteq> JUndefined" "row \<noteq> JNull"
  shows "\<exists>bid. fst (row_bid px res row) = Inr bid"
proof -
  obtain ad0 imps where g: "js_get row ''ad'' = Inr ad0" "js_get row ''imps'' = Inr imps"
    using prop_exists [OF assms(3,4)] by metis
  obtain ad thrown where l: "appendPixels px ad0 (each_items imps) = (ad, thrown)"
    by (cases "appendPixels px ad0 (each_items imps)")
  obtain bid where "bid_literal_post res row ad = Inr bid"
    using bid_literal_post_ad [OF assms] by blast
  with g l show ?thesis
    by (simp add: row_bid_def)
qed

lemma row_bid_markup:
  assumes "res \<noteq> JUndefined" "res \<noteq> JNull"
    and "js_get row ''ad'' = Inr (JStr a)" and "js_get row ''imps'' = Inr (JArr ts)"
    and "appendPixels px (JStr a) ts = (ad, thrown)"
  shows "\<exists>bid. row_bid px res row = (Inr (JObj bid), logError thrown) \<and> map_of bid ''ad'' = Some ad"
proof -
  from assms(3) have "row \<noteq> JUndefined" "row \<noteq> JNull" by auto
  from bid_literal_post_ad [OF assms(1,2) this, of ad]
  obtain bid where "bid_literal_post res row ad = Inr bid" "map_of bid ''ad'' = Some ad"
    by blast
  with assms(3,4,5) show ?thesis
    by (simp add: row_bid_def)
qed

lemma each_rows_defined:
  assumes "res \<noteq> JUndefined" "res \<noteq> JNull"
    and "\<forall>row \<in> set rows. row \<noteq> JUndefined \<and> row \<noteq> JNull"
  shows "\<exists>bids. fst (each_rows px res rows) = Inr bids
           \<and> length bids = length rows
           \<and> (\<forall>i < length rows. fst (row_bid px res (rows ! i)) = Inr (bids ! i))
           \<and> snd (each_rows px res rows) = concat (map (\<lambda>row. snd (row_bid px res row)) rows)"
  using assms(3)
proof (induction rows)
  case Nil
  then show ?case by simp
next
  case (Cons row rows)
  then obtain bids where bids: "fst (each_rows px res rows) = Inr bids"
      "length bids = length rows"
      "\<forall>i < length rows. fst (row_bid px res (rows ! i)) = Inr (bids ! i)"
      "snd (each_rows px res rows) = concat (map (\<lambda>row. snd (row_bid px res row)) rows)"
    by auto
  from Cons.prems obtain b where b: "fst (row_bid px res row) = Inr b"
    using row_bid_defined [OF assms(1,2), of row px] by auto
  obtain lg where rb: "row_bid px res row = (Inr b, lg)"
    using b by (cases "row_bid px res row") auto
  obtain lg' where er: "each_rows px res rows = (Inr bids, lg')"
    using bids(1) by (cases "each_rows px res rows") auto
  have nth: "\<forall>i < length (row # rows). fst (row_bid px res ((row # rows) ! i)) = Inr ((b # bids) ! i)"
    using b bids(3) by (auto simp: nth_Cons split: nat.splits)
  from rb er bids(2,4) nth show ?case
    by auto
qed

lemma interpretResponse_post_rows:
  assumes "js_get r ''body'' = Inr res" and "js_get res ''bids'' = Inr (JArr rows)"
  shows "interpretResponse_post px r = each_rows px res rows \<and> res \<noteq> JUndefined \<and> res \<noteq> JNull"
proof -
  from js_get_arr_object [OF assms(2)] obtain fs where "res = JObj fs" "map_of fs ''bids'' = Some (JArr rows)"
    by blast
  then have "\<not> isEmpty res" "res \<noteq> JUndefined" "res \<noteq> JNull"
    by (auto simp: isEmpty_def)
  with assms show ?thesis
    by (simp add: interpretResponse_post_def)
qed

text \<open>
  C4. When the pixel helper returns a snippet for every tracker of a banner row whose \<^verbatim>\<open>ad\<close>
  is a string and whose \<^verbatim>\<open>imps\<close> is a list, the bid's \<^verbatim>\<open>ad\<close> is the server markup followed
  by the snippets of the trackers, one for each, in the order of the list. In the GET
  variant the row is the response body; in the POST variant it is any row of \<^verbatim>\<open>bids\<close>.
\<close>

theorem banner_markup_all_trackers:
  assumes "\<forall>t \<in> set ts. px t = Inr (snippet t)"
  shows "(js_get r ''body'' = Inr res \<and> js_get res ''ad'' = Inr (JStr ad)
            \<and> js_get res ''imps'' = Inr (JArr ts) \<and> is_native res = Inr False
          \<longrightarrow> (\<exists>bid. fst (interpretResponse_get px r) = Inr [bid]
                 \<and> js_get bid ''ad'' = Inr (JStr (ad @ concat (map snippet ts)))))
       \<and> (js_get r ''body'' = Inr res \<and> js_get res ''bids'' = Inr (JArr rows)
            \<and> (\<forall>row \<in> set rows. row \<noteq> JUndefined \<and> row \<noteq> JNull) \<and> i < length rows
            \<and> js_get (rows ! i) ''ad'' = Inr (JStr ad) \<and> js_get (rows ! i) ''imps'' = Inr (JArr ts)
          \<longrightarrow> (\<exists>bids. fst (interpretResponse_post px r) = Inr bids \<and> length bids = length rows
                 \<and> js_get (bids ! i) ''ad'' = Inr (JStr (ad @ concat (map snippet ts)))))"
proof (intro conjI impI)
  assume h: "js_get r ''body'' = Inr res \<and> js_get res ''ad'' = Inr (JStr ad)
            \<and> js_get res ''imps'' = Inr (JArr ts) \<and> is_native res = Inr False"
  then obtain fs where fs: "res = JObj fs" "map_of fs ''ad'' = Some (JStr ad)"
    using js_get_str_object by blast
  with h have imps: "map_of fs ''imps'' = Some (JArr ts)"
    using js_get_arr_object by blast
  have loop: "forEach_imps px (JObj fs) ts
      = (JObj (AList.update ''ad'' (JStr (ad @ concat (map snippet ts))) fs), None)"
    using forEach_imps_prefix [OF fs(2) assms, of "[]"] by simp
  have "map_of (AList.update ''ad'' (JStr (ad @ concat (map snippet ts))) fs) ''ad''
      = Some (JStr (ad @ concat (map snippet ts)))"
    by (simp add: AList.update_conv')
  from interpretResponse_get_banner [OF _ fs(2) imps _ loop this, of r] h fs(1)
  obtain bid where "fst (interpretResponse_get px r) = Inr [JObj bid]"
      "map_of bid ''ad'' = Some (JStr (ad @ concat (map snippet ts)))"
    by auto
  then show "\<exists>bid. fst (interpretResponse_get px r) = Inr [bid]
      \<and> js_get bid ''ad'' = Inr (JStr (ad @ concat (map snippet ts)))"
    by simp
next
  assume h: "js_get r ''body'' = Inr res \<and> js_get res ''bids'' = Inr (JArr rows)
            \<and> (\<forall>row \<in> set rows. row \<noteq> JUndefined \<and> row \<noteq> JNull) \<and> i < length rows
            \<and> js_get (rows ! i) ''ad'' = Inr (JStr ad) \<and> js_get (rows ! i) ''imps'' = Inr (JArr ts)"
  then have ir: "interpretResponse_post px r = each_rows px res rows" "res \<noteq> JUndefined" "res \<noteq> JNull"
    using interpretResponse_post_rows by auto
  from each_rows_defined [OF ir(2,3), of rows px] h
  obtain bids where bids: "fst (each_rows px res rows) = Inr bids" "length bids = length rows"
      "fst (row_bid px res (rows ! i)) = Inr (bids ! i)"
    by auto
  have loop: "appendPixels px (JStr ad) ts = (JStr (ad @ concat (map snippet ts)), None)"
    using appendPixels_prefix [OF assms, of ad "[]"] by simp
  from row_bid_markup [OF ir(2,3) _ _ loop, of "rows ! i"] h
  obtain bid where "row_bid px res (rows ! i) = (Inr (JObj bid), logError None)"
      "map_of bid ''ad'' = Some (JStr (ad @ concat (map snippet ts)))"
    by auto
  with bids(3) have "bids ! i = JObj bid" "map_of bid ''ad'' = Some (JStr (ad @ concat (map snippet ts)))"
    by auto
  then have "js_get (bids ! i) ''ad'' = Inr (JStr (ad @ concat (map snippet ts)))"
    by simp
  with bids(1,2) ir(1) show "\<exists>bids. fst (interpretResponse_post px r) = Inr bids \<and> length bids = length rows
      \<and> js_get (bids ! i) ''ad'' = Inr (JStr (ad @ concat (map snippet ts)))"
    by auto
qed

lemma encodeURI_t1: "encodeURI ''http://t1'' = ''http://t1''"
  by (simp add: encodeURI_def uri_unreserved_def uri_reserved_def)

lemma pixel_t1: \<open>pixel_markup (JStr ''http://t1'')
   = ''<div style="position:absolute;left:0px;top:0px;visibility:hidden;"><img src="http://t1"></div>''\<close>
  by (simp add: pixel_markup_def encodeURI_t1)

lemma createTrackPixelHtml_t1:
  "createTrackPixelHtml (JStr ''http://t1'') = Inr (pixel_markup (JStr ''http://t1''))"
  by (simp add: createTrackPixelHtml_def)

lemma is_native_example: "is_native (JObj example_row) = Inr False"
  by (simp add: is_native_def example_row_def)

theorem banner_markup_all_trackers_witness:
  \<open>(\<exists>bid. fst (interpretResponse_get createTrackPixelHtml (JObj [(''body'', JObj example_row)])) = Inr [bid]
      \<and> js_get bid ''ad'' = Inr (JStr (''<div>ad</div>'' @
   ''<div style="position:absolute;left:0px;top:0px;visibility:hidden;"><img src="http://t1"></div>'')))
   \<and> (\<exists>bids. fst (interpretResponse_post createTrackPixelHtml
           (JObj [(''body'', JObj [(''bids'', JArr [JObj example_row])])])) = Inr bids
      \<and> length bids = 1
      \<and> js_get (bids ! 0) ''ad'' = Inr (JStr (''<div>ad</div>'' @
   ''<div style="position:absolute;left:0px;top:0px;visibility:hidden;"><img src="http://t1"></div>'')))\<close>
proof -
  have px: "\<forall>t \<in> set [JStr ''http://t1'']. createTrackPixelHtml t = Inr (pixel_markup t)"
    by (simp add: createTrackPixelHtml_t1)
  have g: "js_get (JObj [(''body'', JObj example_row)]) ''body'' = Inr (JObj example_row)
       \<and> js_get (JObj example_row) ''ad'' = Inr (JStr ''<div>ad</div>'')
       \<and> js_get (JObj example_row) ''imps'' = Inr (JArr [JStr ''http://t1''])
       \<and> is_native (JObj example_row) = Inr False"
    by (simp add: example_row_def is_native_example [unfolded example_row_def])
  have p: "js_get (JObj [(''body'', JObj [(''bids'', JArr [JObj example_row])])]) ''body''
         = Inr (JObj [(''bids'', JArr [JObj example_row])])
       \<and> js_get (JObj [(''bids'', JArr [JObj example_row])]) ''bids'' = Inr (JArr [JObj example_row])
       \<and> (\<forall>row \<in> set [JObj example_row]. row \<noteq> JUndefined \<and> row \<noteq> JNull) \<and> (0::nat) < length [JObj example_row]
       \<and> js_get ([JObj example_row] ! 0) ''ad'' = Inr (JStr ''<div>ad</div>'')
       \<and> js_get ([JObj example_row] ! 0) ''imps'' = Inr (JArr [JStr ''http://t1''])"
    by (simp add: example_row_def)
  from banner_markup_all_trackers [OF px, where r = "JObj [(''body'', JObj example_row)]"
      and res = "JObj example_row" and ad = "''<div>ad</div>''"] g
  have 1: "\<exists>bid. fst (interpretResponse_get createTrackPixelHtml (JObj [(''body'', JObj example_row)])) = Inr [bid]
      \<and> js_get bid ''ad'' = Inr (JStr (''<div>ad</div>'' @ concat (map pixel_markup [JStr ''http://t1''])))"
    by blast
  from banner_markup_all_trackers [OF px, where
      r = "JObj [(''body'', JObj [(''bids'', JArr [JObj example_row])])]"
      and res = "JObj [(''bids'', JArr [JObj example_row])]" and rows = "[JObj example_row]"
      and i = 0 and ad = "''<div>ad</div>''"] p
  have 2: "\<exists>bids. fst (interpretResponse_post createTrackPixelHtml
           (JObj [(''body'', JObj [(''bids'', JArr [JObj example_row])])])) = Inr bids
      \<and> length bids = length [JObj example_row]
      \<and> js_get (bids ! 0) ''ad'' = Inr (JStr (''<div>ad</div>'' @ concat (map pixel_markup [JStr ''http://t1''])))"
    by blast
  from 1 2 show ?thesis
    by (simp add: pixel_t1)
qed

text \<open>
  C5. When the pixel helper throws on a tracker of a banner row, after returning snippets
  for the trackers before it, the error is caught and logged under
  \<^verbatim>\<open>Error appending tracking pixel\<close>, \<^verbatim>\<open>interpretResponse\<close> still returns the bid, and the bid's
  \<^verbatim>\<open>ad\<close> is the server markup followed by the snippets appended before the failure.
\<close>

theorem pixel_failure_keeps_bid:
  assumes "\<forall>t \<in> set pre. px t = Inr (snippet t)" and "px bad = Inl e"
  shows "(js_get r ''body'' = Inr res \<and> js_get res ''ad'' = Inr (JStr ad)
            \<and> js_get res ''imps'' = Inr (JArr (pre @ bad # post)) \<and> is_native res = Inr False
          \<longrightarrow> (\<exists>bid. fst (interpretResponse_get px r) = Inr [bid]
                 \<and> js_get bid ''ad'' = Inr (JStr (ad @ concat (map snippet pre)))
                 \<and> fst (snd (interpretResponse_get px r)) = [(''Error appending tracking pixel'', e)]))
       \<and> (js_get r ''body'' = Inr res \<and> js_get res ''bids'' = Inr (JArr rows)
            \<and> (\<forall>row \<in> set rows. row \<noteq> JUndefined \<and> row \<noteq> JNull) \<and> i < length rows
            \<and> js_get (rows ! i) ''ad'' = Inr (JStr ad)
            \<and> js_get (rows ! i) ''imps'' = Inr (JArr (pre @ bad # post))
          \<longrightarrow> (\<exists>bids. fst (interpretResponse_post px r) = Inr bids \<and> length bids = length rows
                 \<and> js_get (bids ! i) ''ad'' = Inr (JStr (ad @ concat (map snippet pre)))
                 \<and> (''Error appending tracking pixel'', e) \<in> set (snd (interpretResponse_post px r))))"
proof (intro conjI impI)
  assume h: "js_get r ''body'' = Inr res \<and> js_get res ''ad'' = Inr (JStr ad)
            \<and> js_get res ''imps'' = Inr (JArr (pre @ bad # post)) \<and> is_native res = Inr False"
  then obtain fs where fs: "res = JObj fs" "map_of fs ''ad'' = Some (JStr ad)"
    using js_get_str_object by blast
  with h have imps: "map_of fs ''imps'' = Some (JArr (pre @ bad # post))"
    using js_get_arr_object by blast
  have loop: "forEach_imps px (JObj fs) (pre @ bad # post)
      = (JObj (AList.update ''ad'' (JStr (ad @ concat (map snippet pre))) fs), Some e)"
    using forEach_imps_prefix [OF fs(2) assms(1), of "bad # post"] assms(2) by simp
  have "map_of (AList.update ''ad'' (JStr (ad @ concat (map snippet pre))) fs) ''ad''
      = Some (JStr (ad @ concat (map snippet pre)))"
    by (simp add: AList.update_conv')
  from interpretResponse_get_banner [OF _ fs(2) imps _ loop this, of r] h fs(1)
  obtain bid where "fst (interpretResponse_get px r) = Inr [JObj bid]"
      "map_of bid ''ad'' = Some (JStr (ad @ concat (map snippet pre)))"
      "fst (snd (interpretResponse_get px r)) = logError (Some e)"
    by auto
  then show "\<exists>bid. fst (interpretResponse_get px r) = Inr [bid]
      \<and> js_get bid ''ad'' = Inr (JStr (ad @ concat (map snippet pre)))
      \<and> fst (snd (interpretResponse_get px r)) = [(''Error appending tracking pixel'', e)]"
    by (simp add: logError_def)
next
  assume h: "js_get r ''body'' = Inr res \<and> js_get res ''bids'' = Inr (JArr rows)
            \<and> (\<forall>row \<in> set rows. row \<noteq> JUndefined \<and> row \<noteq> JNull) \<and> i < length rows
            \<and> js_get (rows ! i) ''ad'' = Inr (JStr ad)
            \<and> js_get (rows ! i) ''imps'' = Inr (JArr (pre @ bad # post))"
  then have ir: "interpretResponse_post px r = each_rows px res rows" "res \<noteq> JUndefined" "res \<noteq> JNull"
    using interpretResponse_post_rows by auto
  from each_rows_defined [OF ir(2,3), of rows px] h
  obtain bids where bids: "fst (each_rows px res rows) = Inr bids" "length bids = length rows"
      "fst (row_bid px res (rows ! i)) = Inr (bids ! i)"
      "snd (each_rows px res rows) = concat (map (\<lambda>row. snd (row_bid px res row)) rows)"
    by auto
  have loop: "appendPixels px (JStr ad) (pre @ bad # post)
      = (JStr (ad @ concat (map snippet pre)), Some e)"
    using appendPixels_prefix [OF assms(1), of ad "bad # post"] assms(2) by simp
  from row_bid_markup [OF ir(2,3) _ _ loop, of "rows ! i"] h
  obtain bid where rb: "row_bid px res (rows ! i) = (Inr (JObj bid), logError (Some e))"
      "map_of bid ''ad'' = Some (JStr (ad @ concat (map snippet pre)))"
    by auto
  with bids(3) have "bids ! i = JObj bid" by auto
  with rb(2) have ad: "js_get (bids ! i) ''ad'' = Inr (JStr (ad @ concat (map snippet pre)))"
    by simp
  from h have "rows ! i \<in> set rows" by simp
  moreover from rb(1) have "(''Error appending tracking pixel'', e) \<in> set (snd (row_bid px res (rows ! i)))"
    by (simp add: logError_def)
  ultimately have "(''Error appending tracking pixel'', e) \<in> set (snd (each_rows px res rows))"
    unfolding bids(4) by auto
  with bids(1,2) ir(1) ad show "\<exists>bids. fst (interpretResponse_post px r) = Inr bids \<and> length bids = length rows
      \<and> js_get (bids ! i) ''ad'' = Inr (JStr (ad @ concat (map snippet pre)))
      \<and> (''Error appending tracking pixel'', e) \<in> set (snd (interpretResponse_post px r))"
    by auto
qed

theorem pixel_failure_keeps_bid_witness:
  "(\<exists>bid. fst (interpretResponse_get failing_px (JObj [(''body'', JObj failing_row)])) = Inr [bid]
      \<and> js_get bid ''ad'' = Inr (JStr ''<div>ad</div><img t1>'')
      \<and> fst (snd (interpretResponse_get failing_px (JObj [(''body'', JObj failing_row)])))
          = [(''Error appending tracking pixel'', URIError)])
   \<and> (\<exists>bids. fst (interpretResponse_post failing_px
           (JObj [(''body'', JObj [(''bids'', JArr [JObj failing_row])])])) = Inr bids
      \<and> length bids = 1
      \<and> js_get (bids ! 0) ''ad'' = Inr (JStr ''<div>ad</div><img t1>'')
      \<and> (''Error appending tracking pixel'', URIError) \<in> set (snd (interpretResponse_post failing_px
           (JObj [(''body'', JObj [(''bids'', JArr [JObj failing_row])])]))))"
proof -
  have px: "\<forall>t \<in> set [JStr ''t1'']. failing_px t = Inr (''<img '' @ js_toString t @ ''>'')"
    "failing_px (JStr ''bad'') = Inl URIError"
    by (simp_all add: failing_px_def)
  have g: "js_get (JObj [(''body'', JObj failing_row)]) ''body'' = Inr (JObj failing_row)
       \<and> js_get (JObj failing_row) ''ad'' = Inr (JStr ''<div>ad</div>'')
       \<and> js_get (JObj failing_row) ''imps'' = Inr (JArr ([JStr ''t1''] @ JStr ''bad'' # [JStr ''t3'']))
       \<and> is_native (JObj failing_row) = Inr False"
    by (simp add: failing_row_def is_native_def)
  have p: "js_get (JObj [(''body'', JObj [(''bids'', JArr [JObj failing_row])])]) ''body''
         = Inr (JObj [(''bids'', JArr [JObj failing_row])])
       \<and> js_get (JObj [(''bids'', JArr [JObj failing_row])]) ''bids'' = Inr (JArr [JObj failing_row])
       \<and> (\<forall>row \<in> set [JObj failing_row]. row \<noteq> JUndefined \<and> row \<noteq> JNull)
       \<and> (0::nat) < length [JObj failing_row]
       \<and> js_get ([JObj failing_row] ! 0) ''ad'' = Inr (JStr ''<div>ad</div>'')
       \<and> js_get ([JObj failing_row] ! 0) ''imps''
           = Inr (JArr ([JStr ''t1''] @ JStr ''bad'' # [JStr ''t3'']))"
    by (simp add: failing_row_def)
  from pixel_failure_keeps_bid [OF px, where r = "JObj [(''body'', JObj failing_row)]"
      and res = "JObj failing_row" and ad = "''<div>ad</div>''" and post = "[JStr ''t3'']"] g
  have 1: "\<exists>bid. fst (interpretResponse_get failing_px (JObj [(''body'', JObj failing_row)])) = Inr [bid]
      \<and> js_get bid ''ad'' = Inr (JStr (''<div>ad</div>'' @ concat (map (\<lambda>t. ''<img '' @ js_toString t @ ''>'') [JStr ''t1''])))
      \<and> fst (snd (interpretResponse_get failing_px (JObj [(''body'', JObj failing_row)])))
          = [(''Error appending tracking pixel'', URIError)]"
    by blast
  from pixel_failure_keeps_bid [OF px, where
      r = "JObj [(''body'', JObj [(''bids'', JArr [JObj failing_row])])]"
      and res = "JObj [(''bids'', JArr [JObj failing_row])]" and rows = "[JObj failing_row]"
      and i = 0 and ad = "''<div>ad</div>''" and post = "[JStr ''t3'']"] p
  have 2: "\<exists>bids. fst (interpretResponse_post failing_px
           (JObj [(''body'', JObj [(''bids'', JArr [JObj failing_row])])])) = Inr bids
      \<and> length bids = length [JObj failing_row]
      \<and> js_get (bids ! 0) ''ad'' = Inr (JStr (''<div>ad</div>'' @ concat (map (\<lambda>t. ''<img '' @ js_toString t @ ''>'') [JStr ''t1''])))
      \<and> (''Error appending tracking pixel'', URIError) \<in> set (snd (interpretResponse_post failing_px
           (JObj [(''body'', JObj [(''bids'', JArr [JObj failing_row])])])))"
    by blast
  from 1 2 show ?thesis
    by simp
qed

section \<open>Calling interpretResponse twice\<close>

text \<open>
  C3. The GET variant's \<^verbatim>\<open>getBannerAd\<close> appends the pixels to \<^verbatim>\<open>res.ad\<close>, a field of the
  response itself. A second call on the same response starts from the markup the first
  call left there and appends the pixels again: for the example row the first call returns
  the markup with one pixel and the second call returns it with two. (The POST variant
  appends to a local copy and has no state to carry over.)
\<close>

theorem second_call_appends_again:
  "fst (interpretResponse_get createTrackPixelHtml (JObj [(''body'', JObj example_row)]))
     = Inr [JObj (example_bid (JStr (''<div>ad</div>'' @ pixel_markup (JStr ''http://t1''))))]
   \<and> fst (interpretResponse_get createTrackPixelHtml
            (snd (snd (interpretResponse_get createTrackPixelHtml (JObj [(''body'', JObj example_row)])))))
     = Inr [JObj (example_bid (JStr (''<div>ad</div>'' @ pixel_markup (JStr ''http://t1'')
                                      @ pixel_markup (JStr ''http://t1''))))]"
  by (simp add: interpretResponse_get_def isEmpty_def example_row_def bid_literal_get_def
      is_native_def getBannerAd_def createTrackPixelHtml_def js_plus_def js_or_def logError_def
      example_bid_def)

section \<open>Native responses\<close>

text \<open>
  The \<^verbatim>\<open>switch\<close> of \<^verbatim>\<open>getNativeAd\<close>: ids 0 to 4 fill title, body, sponsor, icon and main
  image, and an asset with any other id leaves the native object as it is.
\<close>

lemma native_asset_unrecognized:
  assumes "js_get asset ''id'' = Inr i" and "i \<notin> {JNum 0, JNum 1, JNum 2, JNum 3, JNum 4}"
  shows "native_asset native asset = Inr native"
  using assms by (simp add: native_asset_def)

lemma native_asset_slots:
  assumes "js_get asset ''id'' = Inr (JNum n)"
    and "js_get asset ''title'' = Inr (JObj [(''text'', t)])"
    and "js_get asset ''data'' = Inr (JObj [(''value'', d)])"
    and "js_get asset ''img'' = Inr (JObj [(''url'', u), (''w'', w), (''h'', h)])"
  shows "native_asset native asset =
     Inr (if n = 0 then AList.update ''title'' t native
          else if n = 1 then AList.update ''body'' d native
          else if n = 2 then AList.update ''sponsoredBy'' d native
          else if n = 3 then AList.update ''icon''
                 (JObj [(''url'', u), (''width'', w), (''height'', h)]) native
          else if n = 4 then AList.update ''image''
                 (JObj [(''url'', u), (''width'', w), (''height'', h)]) native
          else native)"
  using assms by (simp add: native_asset_def asset_img_def)

text \<open>
  C6. The GET variant tests \<^verbatim>\<open>res.native.length > 0\<close>, not the length of
  \<^verbatim>\<open>res.native.assets\<close>. For the spec's example, a \<^verbatim>\<open>native\<close> object with the asset list
  \<^verbatim>\<open>[{id: 0, title: {text: "T"}}]\<close>, the object has no \<^verbatim>\<open>length\<close>, the test fails, and the bid
  comes out of the banner branch: \<^verbatim>\<open>mediaType\<close> is \<^verbatim>\<open>banner\<close>, there is no \<^verbatim>\<open>native\<close> field, and
  the missing \<^verbatim>\<open>imps\<close> is logged as a pixel error.
\<close>

theorem native_assets_classified_banner:
  "interpretResponse_get createTrackPixelHtml native_response
   = (Inr [JObj [(''requestId'', JStr ''b1''), (''cpm'', JNum 20), (''currency'', JUndefined),
        (''width'', JUndefined), (''height'', JUndefined), (''creativeId'', JUndefined),
        (''netRevenue'', JBool True), (''ttl'', JNum 300), (''mediaType'', BANNER),
        (''ad'', JUndefined)]],
      [(''Error appending tracking pixel'', TypeError)], native_response)"
  by (simp add: interpretResponse_get_def isEmpty_def native_response_def bid_literal_get_def
      is_native_def getBannerAd_def js_or_def logError_def)

text \<open>\<^verbatim>\<open>getNativeAd\<close> itself, on the \<^verbatim>\<open>native\<close> object of that response, gives the title.\<close>

lemma getNativeAd_example:
  "bindE (js_get (JObj [(''bid'', JStr ''b1''), (''price'', JNum 20),
       (''native'', JObj
          [(''assets'', JArr [JObj [(''id'', JNum 0), (''title'', JObj [(''text'', JStr ''T'')])]]),
           (''link'', JObj [(''url'', JStr ''http://c'')])])]) ''native'') getNativeAd
   = Inr (JObj [(''title'', JStr ''T''), (''clickUrl'', JStr ''http://c''),
        (''impressionTrackers'', JArr []), (''privacyLink'', JStr []), (''privacyIcon'', JStr [])])"
  by (simp add: getNativeAd_def native_asset_def js_or_def)










section \<open>User syncs\<close>

text \<open>
  With pixel syncing enabled and every response carrying a body with a list of syncs, both
  variants return one pixel for each sync URL, response by response and in the order of
  each list, keeping duplicates.
\<close>

lemma forEach_responses_map:
  assumes "\<forall>res \<in> set rs. f res = Inr (g res)"
  shows "forEach_responses f rs = Inr (concat (map g rs))"
  using assms by (induction rs) simp_all

lemma getUserSyncs_lists:
  assumes "js_get syncOptions ''pixelEnabled'' = Inr enabled" and "truthy enabled"
    and "\<forall>res \<in> set rs. truthy (js_prop res ''body'')
           \<and> (\<exists>urls. js_get (js_prop res ''body'') ''syncs'' = Inr (JArr urls))"
  shows "getUserSyncs_get syncOptions rs
           = Inr (concat (map (\<lambda>res. map sync_pixel
                    (each_items (js_prop (js_prop res ''body'') ''syncs''))) rs))
       \<and> getUserSyncs_post syncOptions rs = getUserSyncs_get syncOptions rs"
proof -
  let ?g = "\<lambda>res. map sync_pixel (each_items (js_prop (js_prop res ''body'') ''syncs''))"
  have one: "syncs_of_get syncOptions res = Inr (?g res) \<and> syncs_of_post syncOptions res = Inr (?g res)"
    if "res \<in> set rs" for res
  proof -
    from that assms(3) obtain urls where b: "truthy (js_prop res ''body'')"
        and u: "js_get (js_prop res ''body'') ''syncs'' = Inr (JArr urls)"
      by blast
    from b have body: "js_get res ''body'' = Inr (js_prop res ''body'')"
      by (cases res) (auto simp: js_prop_def)
    from u have s: "js_prop (js_prop res ''body'') ''syncs'' = JArr urls"
      by (simp add: js_prop_def)
    show ?thesis
      using assms(1,2) body b u s
      by (cases urls) (simp_all add: syncs_of_get_def syncs_of_post_def)
  qed
  then have "forEach_responses (syncs_of_get syncOptions) rs = Inr (concat (map ?g rs))"
      "forEach_responses (syncs_of_post syncOptions) rs = Inr (concat (map ?g rs))"
    by (simp_all add: forEach_responses_map)
  then show ?thesis
    by (cases rs) (simp_all add: getUserSyncs_get_def getUserSyncs_post_def)
qed

text \<open>
  C7. With pixel syncing enabled, a response whose body is present but carries no
  \<^verbatim>\<open>syncs\<close> makes \<^verbatim>\<open>getUserSyncs\<close> throw in both variants: the guard reads
  \<^verbatim>\<open>res.body.syncs.length\<close> after checking only \<^verbatim>\<open>res.body\<close>.
\<close>

theorem missing_syncs_throws:
  "getUserSyncs_get (JObj [(''pixelEnabled'', JBool True)]) [JObj [(''body'', JObj [(''bids'', JArr [])])]]
     = Inl TypeError
   \<and> getUserSyncs_post (JObj [(''pixelEnabled'', JBool True)]) [JObj [(''body'', JObj [(''bids'', JArr [])])]]
     = Inl TypeError"
  by (simp add: getUserSyncs_get_def getUserSyncs_post_def syncs_of_get_def syncs_of_post_def)

section \<open>Building requests\<close>

lemma valid_bid:
  assumes "isBidRequestValid b = Inr True"
  shows "b \<noteq> JUndefined \<and> b \<noteq> JNull \<and> js_prop b ''params'' \<noteq> JUndefined
         \<and> js_prop b ''params'' \<noteq> JNull \<and> truthy (js_prop (js_prop b ''params'') ''sid'')"
proof -
  from assms obtain params where p: "js_get b ''params'' = Inr params"
    by (cases "js_get b ''params''") (auto simp: isBidRequestValid_def)
  with assms obtain sid where s: "js_get params ''sid'' = Inr sid" "truthy sid"
    by (cases "js_get params ''sid''") (auto simp: isBidRequestValid_def)
  from p s show ?thesis
    by (auto simp: js_prop_def)
qed

lemma request_entry_valid:
  assumes "isBidRequestValid b = Inr True"
  shows "request_entry b = Inr (request_of b)"
proof -
  note v = valid_bid [OF assms]
  from v have "js_get b ''bidId'' = Inr (js_prop b ''bidId'')" "js_get b ''params'' = Inr (js_prop b ''params'')"
    by (simp_all add: js_get_prop)
  moreover from v have "getBidIdParameter ''sid'' (js_prop b ''params'') = js_prop (js_prop b ''params'') ''sid''"
    by (cases "js_prop b ''params''") (auto simp: getBidIdParameter_def js_or_def js_prop_def)
  ultimately show ?thesis
    by (simp add: request_entry_def request_of_def)
qed

lemma forEach_requests_map:
  assumes "\<forall>b \<in> set bids. f b = Inr (g b)"
  shows "forEach_requests f bids = Inr (map g bids)"
  using assms by (induction bids) simp_all

lemma getUrlInfo_defined:
  assumes "ri \<noteq> JUndefined" and "ri \<noteq> JNull"
  shows "\<exists>u. getUrlInfo P ri = Inr u"
  using assms by (simp add: getUrlInfo_def js_get_prop)

lemma request_get_valid:
  assumes "isBidRequestValid b = Inr True"
  shows "\<exists>fields. query_fields ref_url cur dnt bidderRequest b = Inr fields
           \<and> map_of fields ''bid'' = Some (js_prop b ''bidId'')
           \<and> request_get ref_url cur dnt bidderRequest b
               = Inr (JObj [(''method'', JStr ''GET''), (''url'', JStr ENDPOINT_get),
                            (''data'', JStr (appendAll [] fields))])"
proof -
  note v = valid_bid [OF assms]
  have u: "\<exists>h. (if truthy bidderRequest
            then bindE (js_get bidderRequest ''userId'') (\<lambda>userId. Inr (truthy userId))
            else Inr False) = Inr h"
    using js_get_prop [of bidderRequest] truthy_defined [of bidderRequest] by auto
  then obtain h where h: "(if truthy bidderRequest
            then bindE (js_get bidderRequest ''userId'') (\<lambda>userId. Inr (truthy userId))
            else Inr False) = Inr h" by blast
  from v have g: "js_get b ''transactionId'' = Inr (js_prop b ''transactionId'')"
      "js_get b ''bidId'' = Inr (js_prop b ''bidId'')" "js_get b ''params'' = Inr (js_prop b ''params'')"
    by (simp_all add: js_get_prop)
  show ?thesis
    unfolding request_get_def query_fields_def g h by simp
qed

text \<open>
  C8. For valid bids (each passes \<^verbatim>\<open>isBidRequestValid\<close>) and a bidder request that carries
  \<^verbatim>\<open>refererInfo\<close>, the GET variant returns one request for each bid, in order, each with
  method GET and built from that bid; the POST variant returns exactly one request with
  method POST whose data is the stringified payload, and the payload's \<^verbatim>\<open>requests\<close> is the
  list of \<^verbatim>\<open>{bid, sid}\<close> entries of the bids, in order. (The list may also be empty.)
\<close>

theorem buildRequests_one_per_bid:
  assumes "\<forall>b \<in> set bids. isBidRequestValid b = Inr True"
    and "js_get bidderRequest ''refererInfo'' = Inr refererInfo"
    and "refererInfo \<noteq> JUndefined" and "refererInfo \<noteq> JNull"
  shows "(\<exists>rs. buildRequests_get P bids bidderRequest = Inr rs \<and> length rs = length bids
           \<and> (\<forall>i < length bids. js_get (rs ! i) ''method'' = Inr (JStr ''GET'')
                \<and> request_get (js_prop refererInfo ''referer'') (getCurrencyType_get P)
                     (JStr (if getDNT P then ''1'' else ''0'')) bidderRequest (bids ! i)
                   = Inr (rs ! i)))
       \<and> (\<exists>payload. payload_post P bids bidderRequest = Inr payload
           \<and> buildRequests_post P bids bidderRequest
               = Inr [JObj [(''method'', JStr ''POST''), (''url'', JStr ENDPOINT_post),
                            (''data'', JStr (JSON_stringify P payload))]]
           \<and> js_get payload ''requests'' = Inr (JArr (map request_of bids)))"
proof (intro conjI)
  let ?f = "request_get (js_prop refererInfo ''referer'') (getCurrencyType_get P)
              (JStr (if getDNT P then ''1'' else ''0'')) bidderRequest"
  have ex: "\<forall>b \<in> set bids. \<exists>r. ?f b = Inr r \<and> js_get r ''method'' = Inr (JStr ''GET'')"
  proof
    fix b assume "b \<in> set bids"
    with assms(1) have "isBidRequestValid b = Inr True" by blast
    from request_get_valid [OF this] obtain fields where
      "?f b = Inr (JObj [(''method'', JStr ''GET''), (''url'', JStr ENDPOINT_get),
                         (''data'', JStr (appendAll [] fields))])"
      by blast
    moreover have "js_get (JObj [(''method'', JStr ''GET''), (''url'', JStr ENDPOINT_get),
                         (''data'', JStr (appendAll [] fields))]) ''method'' = Inr (JStr ''GET'')"
      by simp
    ultimately show "\<exists>r. ?f b = Inr r \<and> js_get r ''method'' = Inr (JStr ''GET'')"
      by blast
  qed
  from bchoice [OF ex] obtain g where
    g: "\<forall>b \<in> set bids. ?f b = Inr (g b) \<and> js_get (g b) ''method'' = Inr (JStr ''GET'')"
    by blast
  then have "forEach_requests ?f bids = Inr (map g bids)"
    by (intro forEach_requests_map) blast
  moreover have "buildRequests_get P bids bidderRequest = forEach_requests ?f bids"
    using assms(2,3,4) by (simp add: buildRequests_get_def js_get_prop)
  ultimately have "buildRequests_get P bids bidderRequest = Inr (map g bids)"
    by simp
  with g show "\<exists>rs. buildRequests_get P bids bidderRequest = Inr rs \<and> length rs = length bids
           \<and> (\<forall>i < length bids. js_get (rs ! i) ''method'' = Inr (JStr ''GET'') \<and> ?f (bids ! i) = Inr (rs ! i))"
    by simp
next
  have reqs: "forEach_requests request_entry bids = Inr (map request_of bids)"
    using assms(1) by (intro forEach_requests_map) (simp add: request_entry_valid)
  obtain u where u: "getUrlInfo P refererInfo = Inr u"
    using getUrlInfo_defined [OF assms(3,4)] by blast
  show "\<exists>payload. payload_post P bids bidderRequest = Inr payload
           \<and> buildRequests_post P bids bidderRequest
               = Inr [JObj [(''method'', JStr ''POST''), (''url'', JStr ENDPOINT_post),
                            (''data'', JStr (JSON_stringify P payload))]]
           \<and> js_get payload ''requests'' = Inr (JArr (map request_of bids))"
    using reqs u assms(2) by (simp add: buildRequests_post_def payload_post_def)
qed

theorem buildRequests_one_per_bid_witness:
  "isBidRequestValid (example_bids ! 0) = Inr True
   \<and> isBidRequestValid (example_bids ! 1) = Inr True
   \<and> (\<exists>rs. buildRequests_get example_platform example_bids example_bidderRequest = Inr rs
         \<and> length rs = 2
         \<and> js_get (rs ! 0) ''method'' = Inr (JStr ''GET'')
         \<and> js_get (rs ! 1) ''method'' = Inr (JStr ''GET''))
   \<and> (\<exists>payload. payload_post example_platform example_bids example_bidderRequest = Inr payload
         \<and> buildRequests_post example_platform example_bids example_bidderRequest
             = Inr [JObj [(''method'', JStr ''POST''), (''url'', JStr ENDPOINT_post),
                          (''data'', JStr (JSON_stringify example_platform payload))]]
         \<and> js_get payload ''requests''
             = Inr (JArr [JObj [(''bid'', JStr ''b1''), (''sid'', JStr ''123'')],
                          JObj [(''bid'', JStr ''b2''), (''sid'', JNum 456)]]))"
proof -
  have valid: "\<forall>b \<in> set example_bids. isBidRequestValid b = Inr True"
    by (simp add: example_bids_def isBidRequestValid_def)
  have ref: "js_get example_bidderRequest ''refererInfo''
      = Inr (JObj [(''referer'', JStr ''http://example.com'')])"
    by (simp add: example_bidderRequest_def)
  have len: "length example_bids = 2"
    by (simp add: example_bids_def)
  have reqs: "map request_of example_bids
      = [JObj [(''bid'', JStr ''b1''), (''sid'', JStr ''123'')],
         JObj [(''bid'', JStr ''b2''), (''sid'', JNum 456)]]"
    by (simp add: example_bids_def request_of_def js_prop_def)
  from buildRequests_one_per_bid [OF valid ref, of example_platform]
  have "(\<exists>rs. buildRequests_get example_platform example_bids example_bidderRequest = Inr rs
           \<and> length rs = length example_bids
           \<and> (\<forall>i < length example_bids. js_get (rs ! i) ''method'' = Inr (JStr ''GET'')))
       \<and> (\<exists>payload. payload_post example_platform example_bids example_bidderRequest = Inr payload
           \<and> buildRequests_post example_platform example_bids example_bidderRequest
               = Inr [JObj [(''method'', JStr ''POST''), (''url'', JStr ENDPOINT_post),
                            (''data'', JStr (JSON_stringify example_platform payload))]]
           \<and> js_get payload ''requests'' = Inr (JArr (map request_of example_bids)))"
    by auto
  moreover have "isBidRequestValid (example_bids ! 0) = Inr True"
      "isBidRequestValid (example_bids ! 1) = Inr True"
    by (simp_all add: example_bids_def isBidRequestValid_def)
  ultimately show ?thesis
    unfolding len reqs by (auto simp: less_Suc_eq numeral_2_eq_2)
qed

text \<open>Percent encoding, one character at a time.\<close>

lemma eval_uri [simp]:
  "encodeURIComponent [] = []"
  "encodeURIComponent (c # cs) = (if c \<in> set uri_unreserved then [c] else pct c) @ encodeURIComponent cs"
  by (simp_all add: encodeURIComponent_def)

text \<open>A field whose value is falsy adds nothing to the query string.\<close>

lemma tryAppendQueryString_falsy:
  assumes "\<not> truthy v"
  shows "tryAppendQueryString queryString key v = queryString"
  using assms by (simp add: tryAppendQueryString_def)

text \<open>
  C9. The GET variant hands \<^verbatim>\<open>eids\<close>, an array, to \<^verbatim>\<open>tryAppendQueryString\<close>. An array is
  truthy even when empty, and the empty array encodes to the empty string: a request
  without a LiveRamp id carries \<^verbatim>\<open>usr=\<close> with an empty value.
\<close>

theorem usr_emitted_empty:
  "buildRequests_get example_platform [hd example_bids] example_bidderRequest
   = Inr [JObj [(''method'', JStr ''GET''), (''url'', JStr ENDPOINT_get),
       (''data'', JStr ''tid=t1&bid=b1&ver=%24prebid.version%24&sid=123&url=http%3A%2F%2Fexample.com&cur=JPY&dnt=0&usr=&'')]]"
  by (simp add: buildRequests_get_def request_get_def query_fields_def example_platform_def
      example_bids_def example_bidderRequest_def getCurrencyType_get_def getBidIdParameter_def
      js_prop_def js_or_def tryAppendQueryString_def uri_unreserved_def pct_def hex_char_def)

end
